theory Spec2Isabelle
  imports
    Main
    "HOL-Library.AList"
    "HOL-Library.Char_ord"
    "HOL-Library.List_Lexorder"
    "HOL-Library.Multiset"
begin

section \<open>Python values, exceptions and dictionaries\<close>

text \<open>
  The values a column of a \<^verbatim>\<open>sqlite3.Row\<close> holds in this program: \<^verbatim>\<open>None\<close> (SQL NULL),
  an integer, or a text. A Python \<^verbatim>\<open>str\<close> is modelled by its UTF-8 encoding, one
  \<^typ>\<open>char\<close> per byte; the lexicographic order of the bytes is the order of the code
  points, which is how Python compares two strings. Columns of storage class REAL and
  BLOB are outside the model.
\<close>

datatype pyval = PNone | PInt int | PStr string

datatype exc =
    ImportError | ModuleNotFoundError | SyntaxError | AttributeError | TypeError
  | ValueError | OverflowError | FileNotFoundError | OperationalError | OSError
  | UnicodeEncodeError | RecursionError

text \<open>
  A \<^verbatim>\<open>dict\<close> with text keys keeps its insertion order; an assignment to a key that is
  present replaces the value in place and an assignment to a new key appends it, which
  is what \<^const>\<open>AList.update\<close> does.
\<close>

type_synonym pydict = "(string \<times> pyval) list"

text \<open>Truth value testing: \<^verbatim>\<open>None\<close>, \<^verbatim>\<open>0\<close> and \<^verbatim>\<open>''\<close> are false.\<close>

fun truthy :: "pyval \<Rightarrow> bool" where
  "truthy PNone = False"
| "truthy (PInt n) = (n \<noteq> 0)"
| "truthy (PStr s) = (s \<noteq> [])"

text \<open>\<^verbatim>\<open>d.get(k)\<close> and \<^verbatim>\<open>d.get(k, default)\<close>: the default only when the key is absent.\<close>

definition dict_get :: "pydict \<Rightarrow> string \<Rightarrow> pyval" where
  "dict_get d k = (case map_of d k of None \<Rightarrow> PNone | Some v \<Rightarrow> v)"

definition dict_get_default :: "pydict \<Rightarrow> string \<Rightarrow> pyval \<Rightarrow> pyval" where
  "dict_get_default d k dflt = (case map_of d k of None \<Rightarrow> dflt | Some v \<Rightarrow> v)"

definition dict_set :: "pydict \<Rightarrow> string \<Rightarrow> pyval \<Rightarrow> pydict" where
  "dict_set d k v = AList.update k v d"

subsection \<open>Decimal literals\<close>

text \<open>
  A reader of decimal literals in ASCII: white space around the literal is dropped, a
  sign may come first, and single underscores may stand between digits; \<open>None\<close> for
  any other text. On such texts, of fewer digits than the interpreter's limit, it is
  what \<^verbatim>\<open>int\<close> reads; the program itself takes \<^verbatim>\<open>int\<close> from its runtime, below.
\<close>

definition is_space :: "char \<Rightarrow> bool" where
  "is_space c = (c \<in> set [CHR 0x09, CHR 0x0A, CHR 0x0B, CHR 0x0C, CHR 0x0D, CHR '' ''])"

definition is_digit :: "char \<Rightarrow> bool" where
  "is_digit c = (c \<in> set ''0123456789'')"

definition digit_val :: "char \<Rightarrow> int" where
  "digit_val c = int (of_char c) - 48"

definition strip :: "string \<Rightarrow> string" where
  "strip s = rev (dropWhile is_space (rev (dropWhile is_space s)))"

fun int_digits :: "int \<Rightarrow> string \<Rightarrow> int option" where
  "int_digits acc [] = Some acc"
| "int_digits acc [c] = (if is_digit c then Some (acc * 10 + digit_val c) else None)"
| "int_digits acc (c # d # ds) =
     (if is_digit c then int_digits (acc * 10 + digit_val c) (d # ds)
      else if c = CHR ''_'' \<and> is_digit d then int_digits (acc * 10 + digit_val d) ds
      else None)"

definition int_unsigned :: "string \<Rightarrow> int option" where
  "int_unsigned s =
     (case s of
        [] \<Rightarrow> None
      | c # cs \<Rightarrow> if is_digit c then int_digits (digit_val c) cs else None)"

definition int_of_str :: "string \<Rightarrow> int option" where
  "int_of_str s =
     (case strip s of
        [] \<Rightarrow> None
      | c # cs \<Rightarrow>
          if c = CHR ''-'' then map_option uminus (int_unsigned cs)
          else if c = CHR ''+'' then int_unsigned cs
          else int_unsigned (c # cs))"

section \<open>Dates and times of the standard library\<close>

text \<open>
  A \<^verbatim>\<open>datetime\<close> value: its calendar fields and its offset from UTC in microseconds
  (\<open>None\<close> for a naive value, one without \<^verbatim>\<open>tzinfo\<close>).
\<close>

record datetime =
  year :: int
  month :: int
  day :: int
  hour :: int
  minute :: int
  second :: int
  microsecond :: int
  utcoffset :: "int option"

definition is_leap :: "int \<Rightarrow> bool" where
  "is_leap y = (if y mod 100 = 0 then y mod 400 = 0 else y mod 4 = 0)"

definition days_in_month :: "int \<Rightarrow> int \<Rightarrow> int" where
  "days_in_month y m =
     (if m = 2 then (if is_leap y then 29 else 28)
      else if m \<in> set [4, 6, 9, 11] then 30 else 31)"

definition day_us :: int where
  "day_us = 86400000000"

text \<open>
  The constructor: \<^verbatim>\<open>ValueError\<close> (here \<open>None\<close>) for a field out of range, or an
  offset that is not strictly between minus and plus 24 hours.
\<close>

definition datetime_new ::
  "int \<Rightarrow> int \<Rightarrow> int \<Rightarrow> int \<Rightarrow> int \<Rightarrow> int \<Rightarrow> int \<Rightarrow> int option \<Rightarrow> datetime option" where
  "datetime_new y m d h mi s us tz =
     (if 1 \<le> y \<and> y \<le> 9999 \<and> 1 \<le> m \<and> m \<le> 12 \<and> 1 \<le> d \<and> d \<le> days_in_month y m
         \<and> 0 \<le> h \<and> h < 24 \<and> 0 \<le> mi \<and> mi < 60 \<and> 0 \<le> s \<and> s < 60
         \<and> 0 \<le> us \<and> us < 1000000
         \<and> (case tz of None \<Rightarrow> True | Some off \<Rightarrow> - day_us < off \<and> off < day_us)
      then Some \<lparr>year = y, month = m, day = d, hour = h, minute = mi, second = s,
                  microsecond = us, utcoffset = tz\<rparr>
      else None)"

subsection \<open>\<^verbatim>\<open>datetime.fromisoformat\<close>\<close>

text \<open>
  The format \<^verbatim>\<open>datetime.isoformat()\<close> writes, which every Python from 3.7 on reads:
  \<^verbatim>\<open>YYYY-MM-DD[*HH[:MM[:SS[.fff[fff]]]][+HH:MM[:SS[.ffffff]]]]\<close>, where \<^verbatim>\<open>*\<close> is any
  single character. \<open>None\<close> stands for the \<^verbatim>\<open>ValueError\<close> of any other text. Python
  3.11 and later read further ISO 8601 forms; the program's own behaviour depends on the
  parser only through the \<^verbatim>\<open>runtime\<close> below.
\<close>

definition digits :: "nat \<Rightarrow> string \<Rightarrow> int option" where
  "digits n s =
     (if length s = n \<and> 0 < n \<and> list_all is_digit s
      then Some (foldl (\<lambda>a c. a * 10 + digit_val c) 0 s) else None)"

definition parse_isoformat_date :: "string \<Rightarrow> (int \<times> int \<times> int) option" where
  "parse_isoformat_date s =
     (case (digits 4 (take 4 s), digits 2 (take 2 (drop 5 s)), digits 2 (take 2 (drop 8 s))) of
        (Some y, Some m, Some d) \<Rightarrow>
          if length s = 10 \<and> s ! 4 = CHR ''-'' \<and> s ! 7 = CHR ''-'' then Some (y, m, d) else None
      | _ \<Rightarrow> None)"

text \<open>\<^verbatim>\<open>HH[:MM[:SS[.fff[fff]]]]\<close>, read to the end of the text.\<close>

definition parse_fraction :: "string \<Rightarrow> int option" where
  "parse_fraction f =
     (if length f = 3 then map_option (\<lambda>n. n * 1000) (digits 3 f)
      else if length f = 6 then digits 6 f
      else None)"

definition parse_hh_mm_ss_ff :: "string \<Rightarrow> (int \<times> int \<times> int \<times> int) option" where
  "parse_hh_mm_ss_ff t =
     (case digits 2 (take 2 t) of
        None \<Rightarrow> None
      | Some h \<Rightarrow>
         (case drop 2 t of
            [] \<Rightarrow> Some (h, 0, 0, 0)
          | c1 # r1 \<Rightarrow>
             (case (c1 = CHR '':'', digits 2 (take 2 r1)) of
                (True, Some mi) \<Rightarrow>
                  (case drop 2 r1 of
                     [] \<Rightarrow> Some (h, mi, 0, 0)
                   | c2 # r2 \<Rightarrow>
                      (case (c2 = CHR '':'', digits 2 (take 2 r2)) of
                         (True, Some s) \<Rightarrow>
                           (case drop 2 r2 of
                              [] \<Rightarrow> Some (h, mi, s, 0)
                            | c3 # f \<Rightarrow>
                               (if c3 = CHR ''.''
                                then map_option (\<lambda>us. (h, mi, s, us)) (parse_fraction f)
                                else None))
                       | _ \<Rightarrow> None))
              | _ \<Rightarrow> None)))"

definition is_sign :: "char \<Rightarrow> bool" where
  "is_sign c = (c = CHR ''+'' \<or> c = CHR ''-'')"

definition parse_tz :: "string \<Rightarrow> int option" where
  "parse_tz z =
     (case z of
        [] \<Rightarrow> None
      | sg # tzstr \<Rightarrow>
          if length tzstr \<in> set [5, 8, 15] then
            (case parse_hh_mm_ss_ff tzstr of
               None \<Rightarrow> None
             | Some (h, mi, s, us) \<Rightarrow>
                 Some ((if sg = CHR ''-'' then - 1 else 1)
                       * (((h * 60 + mi) * 60 + s) * 1000000 + us)))
          else None)"

definition parse_isoformat_time :: "string \<Rightarrow> (int \<times> int \<times> int \<times> int \<times> int option) option" where
  "parse_isoformat_time t =
     (case parse_hh_mm_ss_ff (takeWhile (\<lambda>c. \<not> is_sign c) t) of
        None \<Rightarrow> None
      | Some (h, mi, s, us) \<Rightarrow>
          (case dropWhile (\<lambda>c. \<not> is_sign c) t of
             [] \<Rightarrow> Some (h, mi, s, us, None)
           | z \<Rightarrow> map_option (\<lambda>off. (h, mi, s, us, Some off)) (parse_tz z)))"

text \<open>The separator is one character: one to four bytes of UTF-8, by its first byte.\<close>

definition utf8_len :: "char \<Rightarrow> nat" where
  "utf8_len c =
     (let b = (of_char c :: nat) in
      if b < 0x80 then 1 else if b < 0xE0 then 2 else if b < 0xF0 then 3 else 4)"

definition fromisoformat_iso :: "string \<Rightarrow> datetime option" where
  "fromisoformat_iso s =
     (case parse_isoformat_date (take 10 s) of
        None \<Rightarrow> None
      | Some (y, m, d) \<Rightarrow>
          (case drop 10 s of
             [] \<Rightarrow> datetime_new y m d 0 0 0 0 None
           | c # r \<Rightarrow>
              (case parse_isoformat_time (drop (utf8_len c) (c # r)) of
                 None \<Rightarrow> None
               | Some (h, mi, sec, us, tz) \<Rightarrow> datetime_new y m d h mi sec us tz)))"

subsection \<open>\<^verbatim>\<open>strftime\<close>\<close>

text \<open>
  A formatter for the directives the program uses, each zero-padded to its width: two
  digits, and four for \<^verbatim>\<open>%Y\<close>. For the years 1000 to 9999 this is what every platform
  writes; below 1000 the C library of the platform decides whether \<^verbatim>\<open>%Y\<close> is padded.
  The program takes \<^verbatim>\<open>strftime\<close> from its runtime, below.
\<close>

definition digit_char :: "int \<Rightarrow> char" where
  "digit_char d = ''0123456789'' ! nat (d mod 10)"

definition zpad2 :: "int \<Rightarrow> string" where
  "zpad2 n = [digit_char (n div 10), digit_char n]"

definition zpad4 :: "int \<Rightarrow> string" where
  "zpad4 n = [digit_char (n div 1000), digit_char (n div 100), digit_char (n div 10), digit_char n]"

definition directive :: "datetime \<Rightarrow> char \<Rightarrow> string" where
  "directive dt c =
     (if c = CHR ''Y'' then zpad4 (year dt)
      else if c = CHR ''m'' then zpad2 (month dt)
      else if c = CHR ''d'' then zpad2 (day dt)
      else if c = CHR ''H'' then zpad2 (hour dt)
      else if c = CHR ''M'' then zpad2 (minute dt)
      else [CHR ''%'', c])"

fun strftime_padded :: "datetime \<Rightarrow> string \<Rightarrow> string" where
  "strftime_padded dt [] = []"
| "strftime_padded dt [c] = [c]"
| "strftime_padded dt (c # d # cs) =
     (if c = CHR ''%'' then directive dt d @ strftime_padded dt cs
      else c # strftime_padded dt (d # cs))"

subsection \<open>Adding a \<^verbatim>\<open>timedelta\<close>; \<^verbatim>\<open>astimezone\<close>\<close>

text \<open>
  \<^verbatim>\<open>dt + timedelta\<close> raises \<^verbatim>\<open>OverflowError\<close> (here \<open>None\<close>) when the result leaves the
  years 1 to 9999.
\<close>

definition next_day :: "int \<times> int \<times> int \<Rightarrow> (int \<times> int \<times> int) option" where
  "next_day ymd =
     (case ymd of (y, m, d) \<Rightarrow>
        if d < days_in_month y m then Some (y, m, d + 1)
        else if m < 12 then Some (y, m + 1, 1)
        else if y < 9999 then Some (y + 1, 1, 1)
        else None)"

definition prev_day :: "int \<times> int \<times> int \<Rightarrow> (int \<times> int \<times> int) option" where
  "prev_day ymd =
     (case ymd of (y, m, d) \<Rightarrow>
        if 1 < d then Some (y, m, d - 1)
        else if 1 < m then Some (y, m - 1, days_in_month y (m - 1))
        else if 1 < y then Some (y - 1, 12, 31)
        else None)"

fun iterate :: "nat \<Rightarrow> ('a \<Rightarrow> 'a option) \<Rightarrow> 'a \<Rightarrow> 'a option" where
  "iterate 0 f x = Some x"
| "iterate (Suc n) f x = (case f x of None \<Rightarrow> None | Some y \<Rightarrow> iterate n f y)"

definition move_days :: "int \<Rightarrow> int \<times> int \<times> int \<Rightarrow> (int \<times> int \<times> int) option" where
  "move_days n ymd = (if 0 \<le> n then iterate (nat n) next_day ymd else iterate (nat (- n)) prev_day ymd)"

definition add_timedelta :: "datetime \<Rightarrow> int \<Rightarrow> datetime option" where
  "add_timedelta dt delta =
     (let t = ((hour dt * 60 + minute dt) * 60 + second dt) * 1000000 + microsecond dt + delta;
          r = t mod day_us
      in case move_days (t div day_us) (year dt, month dt, day dt) of
           None \<Rightarrow> None
         | Some (y, m, d) \<Rightarrow>
             Some (dt\<lparr>year := y, month := m, day := d,
                      hour := r div 3600000000, minute := r div 60000000 mod 60,
                      second := r div 1000000 mod 60, microsecond := r mod 1000000\<rparr>))"

text \<open>
  \<^verbatim>\<open>dt.astimezone()\<close> in a process whose local time zone is a fixed offset of \<open>secs\<close>
  seconds east of UTC: the value is taken to UTC (a naive one is read as local time),
  then to the local zone; either step can raise \<^verbatim>\<open>OverflowError\<close>.
\<close>

definition astimezone_fixed :: "int \<Rightarrow> datetime \<Rightarrow> datetime option" where
  "astimezone_fixed secs dt =
     (let off = secs * 1000000 in
      case add_timedelta dt (- (case utcoffset dt of None \<Rightarrow> off | Some o1 \<Rightarrow> o1)) of
        None \<Rightarrow> None
      | Some u \<Rightarrow>
          (case add_timedelta u off of
             None \<Rightarrow> None
           | Some l \<Rightarrow> Some (l\<lparr>utcoffset := Some off\<rparr>)))"

subsection \<open>\<^verbatim>\<open>json.loads\<close>\<close>

text \<open>
  A decoder of JSON texts. A number with a fraction or an exponent, and
  the literals \<^verbatim>\<open>NaN\<close>, \<^verbatim>\<open>Infinity\<close> and \<^verbatim>\<open>-Infinity\<close>, decode to a float, which is kept
  here as its literal. An object is a \<^verbatim>\<open>dict\<close>: a key written twice keeps its first
  place and its last value. \<open>None\<close> stands for the exception of a text that is not JSON.
  A lone surrogate written as an escape is kept, as three bytes. The program takes
  \<^verbatim>\<open>json.loads\<close> from its runtime, below.
\<close>

datatype json =
    JNull | JBool bool | JInt int | JFloat string | JStr string
  | JArr "json list" | JObj "(string \<times> json) list"

definition is_json_space :: "char \<Rightarrow> bool" where
  "is_json_space c = (c \<in> set [CHR '' '', CHR 0x09, CHR 0x0A, CHR 0x0D])"

definition skip_ws :: "string \<Rightarrow> string" where
  "skip_ws s = dropWhile is_json_space s"

definition hex_val :: "char \<Rightarrow> nat option" where
  "hex_val c =
     (if is_digit c then Some (of_char c - 48)
      else if c \<in> set ''abcdef'' then Some (of_char c - 87)
      else if c \<in> set ''ABCDEF'' then Some (of_char c - 55)
      else None)"

definition hex4 :: "string \<Rightarrow> nat option" where
  "hex4 s =
     (case map hex_val s of
        [Some a, Some b, Some c, Some d] \<Rightarrow> Some (((a * 16 + b) * 16 + c) * 16 + d)
      | _ \<Rightarrow> None)"

definition utf8_encode :: "nat \<Rightarrow> string" where
  "utf8_encode cp =
     (if cp < 0x80 then [char_of cp]
      else if cp < 0x800 then [char_of (0xC0 + cp div 64), char_of (0x80 + cp mod 64)]
      else if cp < 0x10000 then
        [char_of (0xE0 + cp div 4096), char_of (0x80 + cp div 64 mod 64),
         char_of (0x80 + cp mod 64)]
      else
        [char_of (0xF0 + cp div 262144), char_of (0x80 + cp div 4096 mod 64),
         char_of (0x80 + cp div 64 mod 64), char_of (0x80 + cp mod 64)])"

text \<open>
  The text after \<^verbatim>\<open>\u\<close>: four hexadecimal digits, and a second escape when the two are
  a surrogate pair. The result is the character and the number of bytes read.
\<close>

definition scan_u :: "string \<Rightarrow> (string \<times> nat) option" where
  "scan_u r =
     (case hex4 (take 4 r) of
        None \<Rightarrow> None
      | Some hi \<Rightarrow>
          (case (0xD800 \<le> hi \<and> hi \<le> 0xDBFF \<and> take 2 (drop 4 r) = [CHR 0x5C, CHR ''u''],
                 hex4 (take 4 (drop 6 r))) of
             (True, Some lo) \<Rightarrow>
               if 0xDC00 \<le> lo \<and> lo \<le> 0xDFFF
               then Some (utf8_encode (0x10000 + (hi - 0xD800) * 1024 + (lo - 0xDC00)), 10)
               else Some (utf8_encode hi, 4)
           | _ \<Rightarrow> Some (utf8_encode hi, 4)))"

definition simple_escape :: "char \<Rightarrow> char option" where
  "simple_escape e =
     map_of [(CHR 0x22, CHR 0x22), (CHR 0x5C, CHR 0x5C), (CHR ''/'', CHR ''/''),
             (CHR ''b'', CHR 0x08), (CHR ''f'', CHR 0x0C), (CHR ''n'', CHR 0x0A),
             (CHR ''r'', CHR 0x0D), (CHR ''t'', CHR 0x09)] e"

text \<open>The text after an opening quote, up to the closing one; \<open>acc\<close> is what was read.\<close>

function scan_string :: "string \<Rightarrow> string \<Rightarrow> (string \<times> string) option" where
  "scan_string acc [] = None"
| "scan_string acc (c # cs) =
     (if c = CHR 0x22 then Some (acc, cs)
      else if c = CHR 0x5C then
        (case cs of
           [] \<Rightarrow> None
         | e # r \<Rightarrow>
             if e = CHR ''u'' then
               (case scan_u r of
                  None \<Rightarrow> None
                | Some (bytes, n) \<Rightarrow> scan_string (acc @ bytes) (drop n r))
             else
               (case simple_escape e of
                  None \<Rightarrow> None
                | Some ch \<Rightarrow> scan_string (acc @ [ch]) r))
      else if (of_char c :: nat) < 0x20 then None
      else scan_string (acc @ [c]) cs)"
  by pat_completeness auto
termination
  by (relation "measure (\<lambda>(acc, s). length s)") auto

definition scan_number :: "string \<Rightarrow> (json \<times> string) option" where
  "scan_number s =
     (let sg = (if take 1 s = ''-'' then ''-'' else []);
          s1 = drop (length sg) s;
          ip = (if take 1 s1 = ''0'' then ''0'' else takeWhile is_digit s1);
          s2 = drop (length ip) s1;
          fd = takeWhile is_digit (drop 1 s2);
          fr = (if take 1 s2 = ''.'' \<and> fd \<noteq> [] then CHR ''.'' # fd else []);
          s3 = drop (length fr) s2;
          es = (if take 1 (drop 1 s3) \<in> set [''+'', ''-''] then take 1 (drop 1 s3) else []);
          ed = takeWhile is_digit (drop (1 + length es) s3);
          ex = (if take 1 s3 \<in> set [''e'', ''E''] \<and> ed \<noteq> [] then take 1 s3 @ es @ ed else []);
          s4 = drop (length ex) s3
      in if ip = [] then None
         else if fr = [] \<and> ex = []
         then Some (JInt ((if sg = [] then 1 else - 1) * foldl (\<lambda>a c. a * 10 + digit_val c) 0 ip), s4)
         else Some (JFloat (sg @ ip @ fr @ ex), s4))"

definition scan_atom :: "string \<Rightarrow> (json \<times> string) option" where
  "scan_atom s =
     (if take 4 s = ''null'' then Some (JNull, drop 4 s)
      else if take 4 s = ''true'' then Some (JBool True, drop 4 s)
      else if take 5 s = ''false'' then Some (JBool False, drop 5 s)
      else if take 3 s = ''NaN'' then Some (JFloat ''NaN'', drop 3 s)
      else if take 8 s = ''Infinity'' then Some (JFloat ''Infinity'', drop 8 s)
      else if take 9 s = ''-Infinity'' then Some (JFloat ''-Infinity'', drop 9 s)
      else scan_number s)"

text \<open>
  A value, the items of an array after its bracket, and the members of an object after
  its brace. The first argument bounds the depth of the calls, as the interpreter's
  recursion limit does.
\<close>

fun parse_value :: "nat \<Rightarrow> string \<Rightarrow> (json \<times> string) option"
  and parse_array :: "nat \<Rightarrow> json list \<Rightarrow> string \<Rightarrow> (json list \<times> string) option"
  and parse_object ::
    "nat \<Rightarrow> (string \<times> json) list \<Rightarrow> string \<Rightarrow> ((string \<times> json) list \<times> string) option"
where
  "parse_value 0 s = None"
| "parse_value (Suc n) s =
     (case s of
        [] \<Rightarrow> None
      | c # cs \<Rightarrow>
          if c = CHR 0x22 then map_option (\<lambda>(t, r). (JStr t, r)) (scan_string [] cs)
          else if c = CHR ''{'' then
            (case skip_ws cs of
               [] \<Rightarrow> None
             | d # r \<Rightarrow>
                 if d = CHR ''}'' then Some (JObj [], r)
                 else map_option (\<lambda>(ms, r1). (JObj ms, r1)) (parse_object n [] (d # r)))
          else if c = CHR ''['' then
            (case skip_ws cs of
               [] \<Rightarrow> None
             | d # r \<Rightarrow>
                 if d = CHR '']'' then Some (JArr [], r)
                 else map_option (\<lambda>(vs, r1). (JArr vs, r1)) (parse_array n [] (d # r)))
          else scan_atom s)"
| "parse_array 0 acc s = None"
| "parse_array (Suc n) acc s =
     (case parse_value n s of
        None \<Rightarrow> None
      | Some (v, r) \<Rightarrow>
          (case skip_ws r of
             [] \<Rightarrow> None
           | d # r1 \<Rightarrow>
               if d = CHR '']'' then Some (acc @ [v], r1)
               else if d = CHR '','' then parse_array n (acc @ [v]) (skip_ws r1)
               else None))"
| "parse_object 0 acc s = None"
| "parse_object (Suc n) acc s =
     (case s of
        [] \<Rightarrow> None
      | q # s1 \<Rightarrow>
          if q = CHR 0x22 then
            (case scan_string [] s1 of
               None \<Rightarrow> None
             | Some (k, r) \<Rightarrow>
                 (case skip_ws r of
                    [] \<Rightarrow> None
                  | col # r1 \<Rightarrow>
                      if col = CHR '':'' then
                        (case parse_value n (skip_ws r1) of
                           None \<Rightarrow> None
                         | Some (v, r2) \<Rightarrow>
                             (case skip_ws r2 of
                                [] \<Rightarrow> None
                              | d # r3 \<Rightarrow>
                                  if d = CHR ''}'' then Some (AList.update k v acc, r3)
                                  else if d = CHR '','' then
                                    parse_object n (AList.update k v acc) (skip_ws r3)
                                  else None))
                      else None))
          else None)"

definition json_decode :: "string \<Rightarrow> json option" where
  "json_decode s =
     (case parse_value (2 * length s + 2) (skip_ws s) of
        None \<Rightarrow> None
      | Some (v, r) \<Rightarrow> if skip_ws r = [] then Some v else None)"

subsection \<open>\<^verbatim>\<open>json.dump\<close> into a file opened as UTF-8\<close>

text \<open>
  A value of the list that \<^verbatim>\<open>json.dump\<close> is given: a column as it was, or a decoded
  payload. With \<^verbatim>\<open>ensure_ascii=False\<close> the texts are written as they are, and the file
  object raises \<^verbatim>\<open>UnicodeEncodeError\<close> on a text that holds a lone surrogate, which
  UTF-8 cannot encode. In the bytes that stand for a text here, a surrogate is the byte
  \<open>0xED\<close> followed by a byte from \<open>0xA0\<close> on.
\<close>

datatype outval = Verbatim pyval | Decoded json

fun has_surrogate :: "string \<Rightarrow> bool" where
  "has_surrogate [] = False"
| "has_surrogate [c] = False"
| "has_surrogate (c # d # cs) =
     ((c = CHR 0xED \<and> (0xA0 :: nat) \<le> of_char d) \<or> has_surrogate (d # cs))"

fun json_texts :: "json \<Rightarrow> string list" where
  "json_texts (JStr s) = [s]"
| "json_texts (JArr vs) = concat (map json_texts vs)"
| "json_texts (JObj ms) = concat (map (\<lambda>m. fst m # json_texts (snd m)) ms)"
| "json_texts v = []"

fun outval_texts :: "outval \<Rightarrow> string list" where
  "outval_texts (Verbatim (PStr s)) = [s]"
| "outval_texts (Verbatim v) = []"
| "outval_texts (Decoded j) = json_texts j"

definition json_dump_utf8 :: "(string \<times> outval) list list \<Rightarrow> exc option" where
  "json_dump_utf8 doc =
     (if list_ex (\<lambda>d. list_ex (\<lambda>kv. list_ex has_surrogate (fst kv # outval_texts (snd kv))) d) doc
      then Some UnicodeEncodeError else None)"

section \<open>The runtime\<close>

text \<open>
  What the program takes from the interpreter, its library and the process it runs in,
  each as the Python version and the platform have it: \<^verbatim>\<open>int\<close> of a text (\<open>None\<close> for
  its \<^verbatim>\<open>ValueError\<close>), \<^verbatim>\<open>datetime.fromisoformat\<close> (\<open>None\<close> when it raises), the
  conversion \<^verbatim>\<open>astimezone()\<close> to the local time zone of the process (\<open>None\<close> when it
  raises), \<^verbatim>\<open>strftime\<close>, \<^verbatim>\<open>json.loads\<close> (\<open>None\<close> when it raises) and \<^verbatim>\<open>json.dump\<close>
  into the open file (its exception, if any). \<open>cpython secs\<close> is a runtime made of the
  functions above, for a process in a zone \<open>secs\<close> seconds east of UTC.
\<close>

record runtime =
  int_text :: "string \<Rightarrow> int option"
  fromisoformat :: "string \<Rightarrow> datetime option"
  astimezone :: "datetime \<Rightarrow> datetime option"
  strftime :: "datetime \<Rightarrow> string \<Rightarrow> string"
  json_loads :: "string \<Rightarrow> json option"
  json_dump :: "(string \<times> outval) list list \<Rightarrow> exc option"

definition cpython :: "int \<Rightarrow> runtime" where
  "cpython secs =
     \<lparr>int_text = int_of_str, fromisoformat = fromisoformat_iso,
      astimezone = astimezone_fixed secs, strftime = strftime_padded,
      json_loads = json_decode, json_dump = json_dump_utf8\<rparr>"

text \<open>
  \<^verbatim>\<open>int(x)\<close>: of an integer it is the integer, of a text what the runtime reads, and
  \<^verbatim>\<open>int(None)\<close> raises \<^verbatim>\<open>TypeError\<close>.
\<close>

fun py_int :: "runtime \<Rightarrow> pyval \<Rightarrow> exc + int" where
  "py_int rt PNone = Inl TypeError"
| "py_int rt (PInt n) = Inr n"
| "py_int rt (PStr s) = (case int_text rt s of None \<Rightarrow> Inl ValueError | Some n \<Rightarrow> Inr n)"

section \<open>The module \<^verbatim>\<open>data_processor/db_reader.py\<close>\<close>

subsection \<open>\<^verbatim>\<open>TARGET_LEAGUE_IDS\<close>: lines 19 to 57\<close>

text \<open>
  The module \<^verbatim>\<open>league_manager\<close> is not part of the sources; what the statement
  \<^verbatim>\<open>from league_manager import LEAGUE_ID_TO_TRADITIONAL_CHINESE\<close> does is an input: it
  raises, or it binds the name to an object, which is a \<^verbatim>\<open>dict\<close> or a value that has no
  method \<^verbatim>\<open>keys\<close>. The handler is \<^verbatim>\<open>except ImportError\<close>, which also catches the
  subclass \<^verbatim>\<open>ModuleNotFoundError\<close> and nothing else. The \<^verbatim>\<open>print\<close> calls are not
  modelled.
\<close>

datatype pyobj = Dict "(pyval \<times> pyval) list" | Plain pyval

definition is_ImportError :: "exc \<Rightarrow> bool" where
  "is_ImportError e = (e = ImportError \<or> e = ModuleNotFoundError)"

definition DEFAULT_LEAGUE_IDS :: "pyval set" where
  "DEFAULT_LEAGUE_IDS = PInt ` {39 .. 500}"

definition keys_set :: "pyobj \<Rightarrow> exc + pyval set" where
  "keys_set obj = (case obj of Dict kvs \<Rightarrow> Inr (set (map fst kvs)) | Plain v \<Rightarrow> Inl AttributeError)"

definition load_TARGET_LEAGUE_IDS :: "exc + pyobj \<Rightarrow> exc + pyval set" where
  "load_TARGET_LEAGUE_IDS imported =
     (case (case imported of Inl e \<Rightarrow> Inl e | Inr obj \<Rightarrow> keys_set obj) of
        Inr ids \<Rightarrow> Inr ids
      | Inl e \<Rightarrow> if is_ImportError e then Inr DEFAULT_LEAGUE_IDS else Inl e)"

subsection \<open>\<^verbatim>\<open>get_db_path\<close>: lines 59 to 74\<close>

text \<open>
  The world the module reads: the directory \<^verbatim>\<open>Path(__file__).parent.parent\<close>, which
  paths exist, and what \<^verbatim>\<open>sqlite3\<close> answers for a database file and a number of days
  ahead (the rows of the query of lines 98 to 135 between today and that day, or the
  exception \<^verbatim>\<open>connect\<close>, \<^verbatim>\<open>execute\<close> or \<^verbatim>\<open>fetchall\<close> raises), and the exception, if
  any, of opening a path for writing. A row is the \<^verbatim>\<open>dict\<close> of its columns.
\<close>

record world =
  module_root :: string
  path_exists :: "string \<Rightarrow> bool"
  query_rows :: "string \<Rightarrow> int \<Rightarrow> exc + pydict list"
  open_write :: "string \<Rightarrow> exc option"

definition possible_paths :: "world \<Rightarrow> string list" where
  "possible_paths w =
     [module_root w @ ''/api_football_sync/fixtures.db'',
      module_root w @ ''/fixtures.db'',
      ''/root/.openclaw/workspace/api_football_sync/fixtures.db'',
      ''/root/.openclaw/workspace/fixtures.db'']"

definition get_db_path :: "world \<Rightarrow> exc + string" where
  "get_db_path w =
     (case filter (path_exists w) (possible_paths w) of
        [] \<Rightarrow> Inl FileNotFoundError
      | path # _ \<Rightarrow> Inr path)"

subsection \<open>\<^verbatim>\<open>get_fixtures\<close>: lines 76 to 196\<close>

text \<open>The placeholders, as UTF-8: unknown league, home team, away team and date.\<close>

definition unknown_league :: string where
  "unknown_league = [CHR 0xE6, CHR 0x9C, CHR 0xAA, CHR 0xE7, CHR 0x9F, CHR 0xA5,
                     CHR 0xE8, CHR 0x81, CHR 0xAF, CHR 0xE8, CHR 0xB3, CHR 0xBD]"

definition unknown_home :: string where
  "unknown_home = [CHR 0xE6, CHR 0x9C, CHR 0xAA, CHR 0xE7, CHR 0x9F, CHR 0xA5,
                   CHR 0xE4, CHR 0xB8, CHR 0xBB, CHR 0xE9, CHR 0x9A, CHR 0x8A]"

definition unknown_away :: string where
  "unknown_away = [CHR 0xE6, CHR 0x9C, CHR 0xAA, CHR 0xE7, CHR 0x9F, CHR 0xA5,
                   CHR 0xE5, CHR 0xAE, CHR 0xA2, CHR 0xE9, CHR 0x9A, CHR 0x8A]"

definition unknown_date :: string where
  "unknown_date = [CHR 0xE6, CHR 0x9C, CHR 0xAA, CHR 0xE7, CHR 0x9F, CHR 0xA5,
                   CHR 0xE6, CHR 0x97, CHR 0xA5, CHR 0xE6, CHR 0x9C, CHR 0x9F]"

text \<open>Line 149: \<^verbatim>\<open>league_api_id and int(league_api_id) in TARGET_LEAGUE_IDS\<close>.\<close>

definition in_target :: "runtime \<Rightarrow> pyval set \<Rightarrow> pyval \<Rightarrow> exc + bool" where
  "in_target rt ids league_api_id =
     (if truthy league_api_id
      then (case py_int rt league_api_id of Inl e \<Rightarrow> Inl e | Inr n \<Rightarrow> Inr (PInt n \<in> ids))
      else Inr False)"

text \<open>
  Lines 151 to 158, once for each of the three names:
  \<^verbatim>\<open>if not fixture.get(tc): fixture[tc] = fixture.get(en, placeholder)\<close>.
\<close>

definition fill_name :: "string \<Rightarrow> string \<Rightarrow> string \<Rightarrow> pydict \<Rightarrow> pydict" where
  "fill_name tc en placeholder fixture =
     (if \<not> truthy (dict_get fixture tc)
      then dict_set fixture tc (dict_get_default fixture en (PStr placeholder))
      else fixture)"

definition resolve_names :: "pydict \<Rightarrow> pydict" where
  "resolve_names fixture =
     fill_name ''away_team_name_tc'' ''away_team_name_en'' unknown_away
       (fill_name ''home_team_name_tc'' ''home_team_name_en'' unknown_home
         (fill_name ''league_name_tc'' ''league_name_en'' unknown_league fixture))"

text \<open>
  Lines 161 to 171. \<^verbatim>\<open>str.replace('Z', '+00:00')\<close> replaces every \<^verbatim>\<open>Z\<close>. The body of
  the \<^verbatim>\<open>try\<close> yields the three texts, or raises: an integer has no \<^verbatim>\<open>replace\<close>, the
  parser rejects the text, or the conversion to the local zone fails. The bare
  \<^verbatim>\<open>except\<close> catches each of them and sets all three keys again.
\<close>

definition replace_Z :: "string \<Rightarrow> string" where
  "replace_Z s = concat (map (\<lambda>c. if c = CHR ''Z'' then ''+00:00'' else [c]) s)"

definition try_format :: "runtime \<Rightarrow> pyval \<Rightarrow> (string \<times> string \<times> string) option" where
  "try_format rt event_date =
     (case event_date of
        PStr s \<Rightarrow>
          (case fromisoformat rt (replace_Z s) of
             None \<Rightarrow> None
           | Some dt \<Rightarrow>
               (case astimezone rt dt of
                  None \<Rightarrow> None
                | Some loc \<Rightarrow>
                    Some (strftime rt dt ''%Y-%m-%d'', strftime rt dt ''%H:%M'',
                          strftime rt loc ''%Y-%m-%d %H:%M'')))
      | _ \<Rightarrow> None)"

definition set_derived :: "pydict \<Rightarrow> pyval \<Rightarrow> pyval \<Rightarrow> pyval \<Rightarrow> pydict" where
  "set_derived fixture d t l =
     dict_set (dict_set (dict_set fixture ''event_date_formatted'' d)
                 ''event_time_formatted'' t) ''event_datetime_local'' l"

definition format_event_date :: "runtime \<Rightarrow> pydict \<Rightarrow> pydict" where
  "format_event_date rt fixture =
     (let event_date = dict_get fixture ''event_date'' in
      if truthy event_date then
        (case try_format rt event_date of
           Some (d, t, l) \<Rightarrow> set_derived fixture (PStr d) (PStr t) (PStr l)
         | None \<Rightarrow> set_derived fixture event_date (PStr ''00:00'') event_date)
      else fixture)"

definition normalize_row :: "runtime \<Rightarrow> pydict \<Rightarrow> pydict" where
  "normalize_row rt row = format_event_date rt (resolve_names row)"

text \<open>
  The loop of lines 143 to 173 over the rows, \<open>fixtures\<close> being the list built so far.
  The only statement of the loop that can raise past it is \<^verbatim>\<open>int(league_api_id)\<close>.
\<close>

fun normalize_rows :: "runtime \<Rightarrow> pyval set \<Rightarrow> pydict list \<Rightarrow> pydict list \<Rightarrow> exc + pydict list" where
  "normalize_rows rt ids fixtures [] = Inr fixtures"
| "normalize_rows rt ids fixtures (row # rows) =
     (case in_target rt ids (dict_get row ''league_api_id'') of
        Inl e \<Rightarrow> Inl e
      | Inr keep \<Rightarrow>
          normalize_rows rt ids (if keep then fixtures @ [normalize_row rt row] else fixtures) rows)"

definition normalize :: "runtime \<Rightarrow> pyval set \<Rightarrow> pydict list \<Rightarrow> exc + pydict list" where
  "normalize rt ids rows = normalize_rows rt ids [] rows"

text \<open>
  The whole function: the path, the query, the loop. The statistics of lines 177 to
  193 are only printed and are not modelled.
\<close>

definition get_fixtures :: "world \<Rightarrow> runtime \<Rightarrow> pyval set \<Rightarrow> int \<Rightarrow> exc + pydict list" where
  "get_fixtures w rt ids days_ahead =
     (case get_db_path w of
        Inl e \<Rightarrow> Inl e
      | Inr db_path \<Rightarrow>
          (case query_rows w db_path days_ahead of
             Inl e \<Rightarrow> Inl e
           | Inr rows \<Rightarrow> normalize rt ids rows))"

subsection \<open>The built-in \<^verbatim>\<open>sorted\<close>\<close>

text \<open>
  \<^verbatim>\<open>sorted\<close> is stable. Two texts compare by their code points and two integers by
  their value; \<^verbatim>\<open>None\<close> compares with nothing, nor an integer with a text, and the
  comparison raises \<^verbatim>\<open>TypeError\<close>. A list of at most one item is returned without a
  comparison; in a longer list every item takes part in one.
\<close>

fun is_text :: "pyval \<Rightarrow> bool" where
  "is_text (PStr s) = True"
| "is_text v = False"

fun is_integer :: "pyval \<Rightarrow> bool" where
  "is_integer (PInt n) = True"
| "is_integer v = False"

fun text_of :: "pyval \<Rightarrow> string" where
  "text_of (PStr s) = s"
| "text_of v = []"

fun integer_of :: "pyval \<Rightarrow> int" where
  "integer_of (PInt n) = n"
| "integer_of v = 0"

definition py_sorted :: "('a \<Rightarrow> pyval) \<Rightarrow> 'a list \<Rightarrow> exc + 'a list" where
  "py_sorted key xs =
     (if length xs \<le> 1 then Inr xs
      else if list_all (\<lambda>x. is_text (key x)) xs then Inr (sort_key (\<lambda>x. text_of (key x)) xs)
      else if list_all (\<lambda>x. is_integer (key x)) xs then Inr (sort_key (\<lambda>x. integer_of (key x)) xs)
      else Inl TypeError)"

subsection \<open>\<^verbatim>\<open>get_fixtures_by_league\<close>: lines 198 to 228\<close>

text \<open>
  The value of a league in the mapping \<^verbatim>\<open>leagues\<close>; the mapping itself keeps its keys in
  the order they were first stored.
\<close>

record league =
  id' :: pyval
  name :: pyval
  country :: pyval
  fixtures :: "pydict list"


text \<open>
  With no argument (\<open>None\<close>) the function first calls \<^verbatim>\<open>get_fixtures()\<close>, seven days
  ahead.
\<close>

definition fixtures_or_default ::
  "world \<Rightarrow> runtime \<Rightarrow> pyval set \<Rightarrow> pydict list option \<Rightarrow> exc + pydict list" where
  "fixtures_or_default w rt ids arg =
     (case arg of None \<Rightarrow> get_fixtures w rt ids 7 | Some fs \<Rightarrow> Inr fs)"


subsection \<open>\<^verbatim>\<open>get_fixtures_by_date\<close>: lines 230 to 254\<close>

fun group_dates :: "(pyval \<times> pydict list) list \<Rightarrow> pydict list \<Rightarrow> (pyval \<times> pydict list) list" where
  "group_dates dates [] = dates"
| "group_dates dates (fixture # rest) =
     (let date_key = dict_get_default fixture ''event_date_formatted'' (PStr unknown_date);
          dates1 = (if map_of dates date_key = None then dates @ [(date_key, [])] else dates)
      in group_dates (AList.map_entry date_key (\<lambda>g. g @ [fixture]) dates1) rest)"

text \<open>
  \<^verbatim>\<open>sorted(dates.items())\<close> compares the pairs; the keys of a \<^verbatim>\<open>dict\<close> differ, so a
  comparison of two pairs is the comparison of their keys.
\<close>

definition get_fixtures_by_date ::
  "world \<Rightarrow> runtime \<Rightarrow> pyval set \<Rightarrow> pydict list option \<Rightarrow> exc + (pyval \<times> pydict list) list" where
  "get_fixtures_by_date w rt ids arg =
     (case fixtures_or_default w rt ids arg of
        Inl e \<Rightarrow> Inl e
      | Inr fs \<Rightarrow> py_sorted fst (group_dates [] fs))"

subsection \<open>\<^verbatim>\<open>save_fixtures_to_json\<close>: lines 256 to 282\<close>

text \<open>
  The loop of lines 265 to 277 builds the list \<^verbatim>\<open>serializable_fixtures\<close>; the bare
  \<^verbatim>\<open>except\<close> catches whatever \<^verbatim>\<open>json.loads\<close> raises, and \<^verbatim>\<open>str\<close> of a text is the text.
  Then the file is opened and the list is written. The function returns nothing in
  Python; the model returns the list that was written, or the exception of \<^verbatim>\<open>open\<close>
  or of \<^verbatim>\<open>json.dump\<close>.
\<close>

definition serializable_value :: "runtime \<Rightarrow> string \<Rightarrow> pyval \<Rightarrow> outval" where
  "serializable_value rt key v =
     (if key = ''raw_data'' \<and> truthy v then
        (case v of
           PStr s \<Rightarrow> (case json_loads rt s of Some j \<Rightarrow> Decoded j | None \<Rightarrow> Verbatim (PStr s))
         | _ \<Rightarrow> Verbatim v)
      else Verbatim v)"

definition serializable_fixture :: "runtime \<Rightarrow> pydict \<Rightarrow> (string \<times> outval) list" where
  "serializable_fixture rt fixture =
     foldl (\<lambda>serializable (key, v). AList.update key (serializable_value rt key v) serializable)
       [] fixture"

definition save_fixtures_to_json ::
  "world \<Rightarrow> runtime \<Rightarrow> pydict list \<Rightarrow> string \<Rightarrow> exc + (string \<times> outval) list list" where
  "save_fixtures_to_json w rt fixture_list output_path =
     (let serializable_fixtures = map (serializable_fixture rt) fixture_list in
      case open_write w output_path of
        Some e \<Rightarrow> Inl e
      | None \<Rightarrow>
          (case json_dump rt serializable_fixtures of
             Some e \<Rightarrow> Inl e
           | None \<Rightarrow> Inr serializable_fixtures))"

section \<open>Notions of the specification\<close>

text \<open>
  A competition identifier is numeric when \<^verbatim>\<open>int\<close> reads it. It is rejected when it
  is true as a condition and \<^verbatim>\<open>int\<close> raises on it, and selected when it is true as a
  condition and its integer is in the allow-list.
\<close>

definition numeric :: "runtime \<Rightarrow> pyval \<Rightarrow> bool" where
  "numeric rt v = (case py_int rt v of Inr n \<Rightarrow> True | Inl e \<Rightarrow> False)"

definition rejected :: "runtime \<Rightarrow> pyval \<Rightarrow> bool" where
  "rejected rt v = (truthy v \<and> \<not> numeric rt v)"

definition selected :: "runtime \<Rightarrow> pyval set \<Rightarrow> pyval \<Rightarrow> bool" where
  "selected rt ids v =
     (truthy v \<and> (case py_int rt v of Inr n \<Rightarrow> PInt n \<in> ids | Inl e \<Rightarrow> False))"

text \<open>The three derived fields of a fixture, and a fixture without them.\<close>

definition derived_keys :: "string list" where
  "derived_keys = [''event_date_formatted'', ''event_time_formatted'', ''event_datetime_local'']"

definition derived :: "pydict \<Rightarrow> pyval \<times> pyval \<times> pyval" where
  "derived f = (dict_get f ''event_date_formatted'', dict_get f ''event_time_formatted'',
                dict_get f ''event_datetime_local'')"

definition without_derived :: "pydict \<Rightarrow> pydict" where
  "without_derived f = filter (\<lambda>kv. fst kv \<notin> set derived_keys) f"

definition apart_from_derived :: "exc + pydict list \<Rightarrow> exc + pydict list" where
  "apart_from_derived res =
     (case res of Inl e \<Rightarrow> Inl e | Inr fs \<Rightarrow> Inr (map without_derived fs))"

text \<open>One column of every fixture returned, or the exception.\<close>

definition column :: "string \<Rightarrow> exc + pydict list \<Rightarrow> exc + pyval list" where
  "column k res = (case res of Inl e \<Rightarrow> Inl e | Inr fs \<Rightarrow> Inr (map (\<lambda>f. dict_get f k) fs))"





text \<open>
  Two runtimes fail alike on the rows when, for every timestamp of a row that the
  parser of the first reads, the conversion to the local zone raises in both or in
  neither.
\<close>

definition same_failures :: "runtime \<Rightarrow> runtime \<Rightarrow> pydict list \<Rightarrow> bool" where
  "same_failures rt1 rt2 rows =
     list_all (\<lambda>row.
        case dict_get row ''event_date'' of
          PStr s \<Rightarrow>
            (case fromisoformat rt1 (replace_Z s) of
               Some dt \<Rightarrow> (astimezone rt1 dt = None) = (astimezone rt2 dt = None)
             | None \<Rightarrow> True)
        | _ \<Rightarrow> True) rows"


definition text_or_missing :: "string \<Rightarrow> pydict \<Rightarrow> bool" where
  "text_or_missing k f = (case map_of f k of None \<Rightarrow> True | Some v \<Rightarrow> is_text v)"

text \<open>
  Follows the spec's words: what is written for a field. Every field is copied, but
  the raw payload when it is a non-empty text that encodes a JSON value, which is
  decoded.
\<close>

definition written :: "runtime \<Rightarrow> string \<Rightarrow> pyval \<Rightarrow> outval" where
  "written rt k v =
     (case (k = ''raw_data'', v) of
        (True, PStr (c # cs)) \<Rightarrow>
          (case json_loads rt (c # cs) of Some j \<Rightarrow> Decoded j | None \<Rightarrow> Verbatim v)
      | _ \<Rightarrow> Verbatim v)"

section \<open>Sample data\<close>

text \<open>
  A row as the query returns it, with its 27 columns; the league and the home team
  have no localized name. The other rows differ from it in the columns named.
\<close>

definition sample_row :: pydict where
  "sample_row =
     [(''id'', PInt 1001), (''api_id'', PInt 1035001), (''league_id'', PInt 3),
      (''home_team_id'', PInt 11), (''away_team_id'', PInt 12),
      (''event_date'', PStr ''2024-03-01T15:00:00Z''), (''event_timestamp'', PInt 1709305200),
      (''status_short'', PStr ''NS''), (''status_long'', PStr ''Not Started''),
      (''goals_home'', PNone), (''goals_away'', PNone),
      (''venue_name'', PStr ''Anfield''), (''venue_city'', PStr ''Liverpool''),
      (''referee'', PNone), (''round'', PStr ''Regular Season - 27''), (''season'', PInt 2023),
      (''raw_data'', PStr ''{\"fixture\": {\"id\": 1035001}}''),
      (''league_api_id'', PInt 39), (''league_name_tc'', PNone),
      (''league_name_en'', PStr ''Premier League''), (''league_country'', PStr ''England''),
      (''home_team_name_tc'', PNone), (''home_team_name_en'', PStr ''Liverpool''),
      (''home_team_country'', PStr ''England''),
      (''away_team_name_tc'', PStr ''Chelsea TC''), (''away_team_name_en'', PStr ''Chelsea''),
      (''away_team_country'', PStr ''England'')]"

text \<open>The timestamps \<^verbatim>\<open>2024-03-01T15:00:00+00:00\<close> and \<^verbatim>\<open>2024-03-01T01:00:00+08:00\<close>.\<close>

definition sample_dt :: datetime where
  "sample_dt = \<lparr>year = 2024, month = 3, day = 1, hour = 15, minute = 0, second = 0,
                 microsecond = 0, utcoffset = Some 0\<rparr>"


text \<open>
  Three fixtures as the normalizer returns them: of the sample row, of a row of another
  league with no timestamp, and of the sample row with a timestamp that does not parse.
\<close>

definition row_liga_undated :: pydict where
  "row_liga_undated =
     dict_set (dict_set (dict_set sample_row ''league_api_id'' (PInt 140))
                 ''league_name_en'' (PStr ''La Liga''))
       ''event_date'' PNone"

definition fixture_a :: pydict where
  "fixture_a = normalize_row (cpython 0) sample_row"

definition fixture_b :: pydict where
  "fixture_b = normalize_row (cpython 0) row_liga_undated"

definition fixture_c :: pydict where
  "fixture_c = normalize_row (cpython 0) (dict_set sample_row ''event_date'' (PStr ''not-a-date''))"

text \<open>The payload \<^verbatim>\<open>"\ud800"\<close>: a JSON text whose value is a lone surrogate.\<close>

definition surrogate_payload :: string where
  "surrogate_payload = [CHR 0x22, CHR 0x5C] @ ''ud800'' @ [CHR 0x22]"

definition db_file :: string where
  "db_file = ''/srv/football/api_football_sync/fixtures.db''"

text \<open>A world whose database file is the first possible path and answers with \<open>rows\<close>.\<close>

definition world_of :: "pydict list \<Rightarrow> world" where
  "world_of rows =
     \<lparr>module_root = ''/srv/football'',
      path_exists = (\<lambda>p. p = db_file),
      query_rows = (\<lambda>p n. if p = db_file then Inr rows else Inl OperationalError),
      open_write = (\<lambda>p. None)\<rparr>"

text \<open>A world with no database file at all.\<close>

definition empty_world :: world where
  "empty_world =
     \<lparr>module_root = ''/srv/football'',
      path_exists = (\<lambda>p. False),
      query_rows = (\<lambda>p n. Inl OperationalError),
      open_write = (\<lambda>p. None)\<rparr>"

section \<open>Lemmas: dictionaries and the normalizer\<close>

lemma map_of_dict_set: "map_of (dict_set d k v) = (map_of d)(k \<mapsto> v)"
  by (simp add: dict_set_def update_conv')

lemma dict_get_dict_set: "dict_get (dict_set d k v) k' = (if k' = k then v else dict_get d k')"
  by (simp add: dict_get_def map_of_dict_set)

lemma dict_get_default_dict_set:
  "dict_get_default (dict_set d k v) k' x = (if k' = k then v else dict_get_default d k' x)"
  by (simp add: dict_get_default_def map_of_dict_set)

lemma map_of_fill_name:
  "map_of (fill_name tc en ph f) k =
     (if k = tc \<and> \<not> truthy (dict_get f tc) then Some (dict_get_default f en (PStr ph))
      else map_of f k)"
  by (simp add: fill_name_def map_of_dict_set)

lemma dict_get_fill_name:
  "dict_get (fill_name tc en ph f) k =
     (if k = tc \<and> \<not> truthy (dict_get f tc) then dict_get_default f en (PStr ph)
      else dict_get f k)"
  by (simp add: dict_get_def map_of_fill_name)

lemma dict_get_default_fill_name:
  "k \<noteq> tc \<Longrightarrow> dict_get_default (fill_name tc en ph f) k x = dict_get_default f k x"
  by (simp add: dict_get_default_def map_of_fill_name)

lemma resolved_league:
  "dict_get (resolve_names f) ''league_name_tc'' =
     (if truthy (dict_get f ''league_name_tc'') then dict_get f ''league_name_tc''
      else dict_get_default f ''league_name_en'' (PStr unknown_league))"
  by (simp add: resolve_names_def dict_get_fill_name)

lemma resolved_home:
  "dict_get (resolve_names f) ''home_team_name_tc'' =
     (if truthy (dict_get f ''home_team_name_tc'') then dict_get f ''home_team_name_tc''
      else dict_get_default f ''home_team_name_en'' (PStr unknown_home))"
  by (simp add: resolve_names_def dict_get_fill_name dict_get_default_fill_name)

lemma resolved_away:
  "dict_get (resolve_names f) ''away_team_name_tc'' =
     (if truthy (dict_get f ''away_team_name_tc'') then dict_get f ''away_team_name_tc''
      else dict_get_default f ''away_team_name_en'' (PStr unknown_away))"
  by (simp add: resolve_names_def dict_get_fill_name dict_get_default_fill_name)

lemma map_of_resolve_names_other:
  "k \<notin> set [''league_name_tc'', ''home_team_name_tc'', ''away_team_name_tc''] \<Longrightarrow>
   map_of (resolve_names f) k = map_of f k"
  by (simp add: resolve_names_def map_of_fill_name)

lemma dict_get_resolve_names_other:
  "k \<notin> set [''league_name_tc'', ''home_team_name_tc'', ''away_team_name_tc''] \<Longrightarrow>
   dict_get (resolve_names f) k = dict_get f k"
  by (simp add: dict_get_def map_of_resolve_names_other)

lemma map_of_set_derived:
  "map_of (set_derived f d t l) k =
     (if k = ''event_datetime_local'' then Some l
      else if k = ''event_time_formatted'' then Some t
      else if k = ''event_date_formatted'' then Some d
      else map_of f k)"
  by (simp add: set_derived_def map_of_dict_set)

lemma derived_set_derived: "derived (set_derived f d t l) = (d, t, l)"
  by (simp add: derived_def dict_get_def map_of_set_derived)

lemma map_of_format_event_date_other:
  "k \<notin> set derived_keys \<Longrightarrow> map_of (format_event_date rt f) k = map_of f k"
  by (simp add: format_event_date_def Let_def map_of_set_derived derived_keys_def
           split: option.splits prod.splits)

lemma map_of_normalize_row_other:
  "k \<notin> set derived_keys \<Longrightarrow> map_of (normalize_row rt row) k = map_of (resolve_names row) k"
  by (simp add: normalize_row_def map_of_format_event_date_other)

lemma dict_get_normalize_row_other:
  "k \<notin> set derived_keys \<Longrightarrow> dict_get (normalize_row rt row) k = dict_get (resolve_names row) k"
  by (simp add: dict_get_def map_of_normalize_row_other)

lemma in_target_cases:
  "in_target rt ids v = (if rejected rt v then Inl ValueError else Inr (selected rt ids v))"
  by (cases v) (auto simp: in_target_def rejected_def selected_def numeric_def split: option.splits)

lemma normalize_rows_eq:
  "normalize_rows rt ids acc rows =
     (if list_ex (\<lambda>row. rejected rt (dict_get row ''league_api_id'')) rows then Inl ValueError
      else Inr (acc @ map (normalize_row rt)
                  (filter (\<lambda>row. selected rt ids (dict_get row ''league_api_id'')) rows)))"
  by (induction rows arbitrary: acc) (simp_all add: in_target_cases)

lemma normalize_eq:
  "normalize rt ids rows =
     (if list_ex (\<lambda>row. rejected rt (dict_get row ''league_api_id'')) rows then Inl ValueError
      else Inr (map (normalize_row rt)
                  (filter (\<lambda>row. selected rt ids (dict_get row ''league_api_id'')) rows)))"
  by (simp add: normalize_def normalize_rows_eq)

lemma get_db_path_world_of: "get_db_path (world_of rows) = Inr db_file"
  by (simp add: get_db_path_def possible_paths_def world_of_def db_file_def)

lemma query_rows_world_of: "query_rows (world_of rows) db_file n = Inr rows"
  by (simp add: world_of_def)

lemma get_fixtures_world_of: "get_fixtures (world_of rows) rt ids n = normalize rt ids rows"
  by (simp add: get_fixtures_def get_db_path_world_of query_rows_world_of)

lemma default_ids_iff: "PInt n \<in> DEFAULT_LEAGUE_IDS \<longleftrightarrow> 39 \<le> n \<and> n \<le> 500"
  by (auto simp: DEFAULT_LEAGUE_IDS_def)

lemma selected_PInt: "selected rt ids (PInt n) \<longleftrightarrow> n \<noteq> 0 \<and> PInt n \<in> ids"
  by (simp add: selected_def)

lemma rejected_PInt: "\<not> rejected rt (PInt n)"
  by (simp add: rejected_def numeric_def)

lemma rejected_PNone: "\<not> rejected rt PNone"
  by (simp add: rejected_def)

lemma selected_PNone: "\<not> selected rt ids PNone"
  by (simp add: selected_def)

lemma int_of_str_abc: "int_of_str ''abc'' = None"
  by code_simp

lemma int_of_str_61: "int_of_str '' 61 '' = Some 61"
  by code_simp

lemma rejected_abc: "rejected (cpython z) (PStr ''abc'')"
  by (simp add: rejected_def numeric_def cpython_def int_of_str_abc)

lemma selected_61: "selected (cpython z) DEFAULT_LEAGUE_IDS (PStr '' 61 '')"
  by (simp add: selected_def cpython_def int_of_str_61 default_ids_iff)

lemma rejected_61: "\<not> rejected (cpython z) (PStr '' 61 '')"
  by (simp add: rejected_def numeric_def cpython_def int_of_str_61)

lemma sample_league_api_id: "dict_get sample_row ''league_api_id'' = PInt 39"
  by (simp add: sample_row_def dict_get_def)

section \<open>Lemmas: timestamps\<close>






lemma derived_resolve_names: "derived (resolve_names row) = derived row"
  by (simp add: derived_def dict_get_resolve_names_other)

lemma derived_normalize_row:
  "derived (normalize_row rt row) =
     (if truthy (dict_get row ''event_date'') then
        (case try_format rt (dict_get row ''event_date'') of
           Some (d, t, l) \<Rightarrow> (PStr d, PStr t, PStr l)
         | None \<Rightarrow> (dict_get row ''event_date'', PStr ''00:00'', dict_get row ''event_date''))
      else derived row)"
  by (simp add: normalize_row_def format_event_date_def Let_def derived_set_derived
        derived_resolve_names dict_get_resolve_names_other split: option.splits prod.splits)

lemma column_normalize:
  "column k (normalize rt ids rows) =
     (if list_ex (\<lambda>row. rejected rt (dict_get row ''league_api_id'')) rows then Inl ValueError
      else Inr (map (\<lambda>row. dict_get (normalize_row rt row) k)
                  (filter (\<lambda>row. selected rt ids (dict_get row ''league_api_id'')) rows)))"
  by (simp add: column_def normalize_eq comp_def)

lemma derived_fst: "dict_get f ''event_date_formatted'' = fst (derived f)"
  and derived_snd: "dict_get f ''event_time_formatted'' = fst (snd (derived f))"
  and derived_trd: "dict_get f ''event_datetime_local'' = snd (snd (derived f))"
  by (simp_all add: derived_def)

lemma replace_Z_sample: "replace_Z ''2024-03-01T15:00:00Z'' = ''2024-03-01T15:00:00+00:00''"
  by (simp add: replace_Z_def)

lemma parse_sample: "fromisoformat_iso ''2024-03-01T15:00:00+00:00'' = Some sample_dt"
  unfolding sample_dt_def by code_simp


lemma parse_not_a_date: "fromisoformat_iso ''not-a-date'' = None"
  by code_simp

lemma local_sample_utc: "astimezone_fixed 0 sample_dt = Some sample_dt"
  unfolding sample_dt_def by code_simp

lemma local_sample_taipei:
  "astimezone_fixed 28800 sample_dt = Some (sample_dt\<lparr>hour := 23, utcoffset := Some 28800000000\<rparr>)"
  unfolding sample_dt_def by code_simp


lemmas strftime_defs = directive_def zpad2_def zpad4_def digit_char_def

lemma strftime_sample:
  "strftime_padded sample_dt ''%Y-%m-%d'' = ''2024-03-01''"
  "strftime_padded sample_dt ''%H:%M'' = ''15:00''"
  "strftime_padded sample_dt ''%Y-%m-%d %H:%M'' = ''2024-03-01 15:00''"
  "strftime_padded (sample_dt\<lparr>hour := 23, utcoffset := Some 28800000000\<rparr>) ''%Y-%m-%d %H:%M''
     = ''2024-03-01 23:00''"
  by (simp_all add: sample_dt_def strftime_defs)




lemma sample_event_date: "dict_get sample_row ''event_date'' = PStr ''2024-03-01T15:00:00Z''"
  by (simp add: sample_row_def dict_get_def)

lemma try_format_sample_utc:
  "try_format (cpython 0) (PStr ''2024-03-01T15:00:00Z'')
     = Some (''2024-03-01'', ''15:00'', ''2024-03-01 15:00'')"
  by (simp add: try_format_def cpython_def replace_Z_sample parse_sample local_sample_utc
        strftime_sample del: strftime_padded.simps)

lemma try_format_sample_taipei:
  "try_format (cpython 28800) (PStr ''2024-03-01T15:00:00Z'')
     = Some (''2024-03-01'', ''15:00'', ''2024-03-01 23:00'')"
  by (simp add: try_format_def cpython_def replace_Z_sample parse_sample local_sample_taipei
        strftime_sample del: strftime_padded.simps)


section \<open>Lemmas: the derived fields\<close>

lemma filter_update_excluded:
  "\<not> P k \<Longrightarrow> filter (\<lambda>kv. P (fst kv)) (AList.update k v al) = filter (\<lambda>kv. P (fst kv)) al"
  by (induction al) auto

lemma without_derived_dict_set:
  "k \<in> set derived_keys \<Longrightarrow> without_derived (dict_set f k v) = without_derived f"
  unfolding without_derived_def dict_set_def
  by (rule filter_update_excluded [where P = "\<lambda>k. k \<notin> set derived_keys"]) simp

lemma without_derived_set_derived: "without_derived (set_derived f d t l) = without_derived f"
  by (simp add: set_derived_def without_derived_dict_set derived_keys_def)

lemma without_derived_normalize_row:
  "without_derived (normalize_row rt row) = without_derived (resolve_names row)"
  by (simp add: normalize_row_def format_event_date_def Let_def without_derived_set_derived
        split: option.splits prod.splits)

lemma rejected_int_text: "int_text rt1 = int_text rt2 \<Longrightarrow> rejected rt1 v = rejected rt2 v"
  by (cases v) (simp_all add: rejected_def numeric_def)

lemma selected_int_text: "int_text rt1 = int_text rt2 \<Longrightarrow> selected rt1 ids v = selected rt2 ids v"
  by (cases v) (simp_all add: selected_def)

lemma apart_from_derived_normalize:
  "apart_from_derived (normalize rt ids rows) =
     (if list_ex (\<lambda>row. rejected rt (dict_get row ''league_api_id'')) rows then Inl ValueError
      else Inr (map (\<lambda>row. without_derived (resolve_names row))
                  (filter (\<lambda>row. selected rt ids (dict_get row ''league_api_id'')) rows)))"
  by (simp add: apart_from_derived_def normalize_eq comp_def without_derived_normalize_row)

lemma all_but_derived:
  assumes "int_text rt1 = int_text rt2"
  shows "apart_from_derived (normalize rt1 ids rows) = apart_from_derived (normalize rt2 ids rows)"
  unfolding apart_from_derived_normalize
  using rejected_int_text [OF assms] selected_int_text [OF assms] by simp

lemma map_of_normalize_row_derived_absent:
  assumes "\<not> truthy (dict_get row ''event_date'')" and "k \<in> set derived_keys"
  shows "map_of (normalize_row rt row) k = map_of row k"
  using assms
  by (auto simp: normalize_row_def format_event_date_def Let_def dict_get_resolve_names_other
        map_of_resolve_names_other derived_keys_def)

section \<open>Lemmas: sorting\<close>




lemma py_sorted_mset: "py_sorted key xs = Inr ys \<Longrightarrow> mset ys = mset xs"
  by (auto simp: py_sorted_def split: if_splits)


lemma py_sorted_text:
  "list_all (\<lambda>x. is_text (key x)) xs \<Longrightarrow> \<exists>ys. py_sorted key xs = Inr ys"
  by (simp add: py_sorted_def)


lemma sum_list_mset_cong: "mset xs = mset ys \<Longrightarrow> sum_list (map f xs) = sum_list (map (f :: 'a \<Rightarrow> nat) ys)"
  by (metis mset_map sum_mset_sum_list)


section \<open>Lemmas: grouping\<close>

lemma keys_map_entry: "map fst (AList.map_entry k f al) = map fst al"
  by (induction al) auto

lemma map_of_append_entry:
  "map_of (al @ [(k, v)]) k' =
     (case map_of al k' of None \<Rightarrow> (if k' = k then Some v else None) | Some x \<Rightarrow> Some x)"
  by (simp add: map_add_def split: option.splits)








lemma text_or_missing_default: "text_or_missing k f \<Longrightarrow> is_text (dict_get_default f k (PStr d))"
  by (simp add: text_or_missing_def dict_get_default_def split: option.splits)

lemma group_dates_text:
  "list_all is_text (map fst dates) \<Longrightarrow> list_all (text_or_missing ''event_date_formatted'') fs \<Longrightarrow>
   list_all is_text (map fst (group_dates dates fs))"
proof (induction fs arbitrary: dates)
  case Nil
  then show ?case by simp
next
  case (Cons f fs)
  show ?case
    using Cons.prems
    by (auto simp: Let_def keys_map_entry text_or_missing_default intro!: Cons.IH)
qed


lemma group_dates_keeps:
  "map_of dates k = Some g \<Longrightarrow> f \<in> set g \<Longrightarrow>
   \<exists>g'. map_of (group_dates dates fs) k = Some g' \<and> f \<in> set g'"
proof (induction fs arbitrary: dates g)
  case Nil
  then show ?case by simp
next
  case (Cons x fs)
  define key where "key = dict_get_default x ''event_date_formatted'' (PStr unknown_date)"
  define dates1 where "dates1 = (if map_of dates key = None then dates @ [(key, [])] else dates)"
  define dates2 where "dates2 = AList.map_entry key (\<lambda>g. g @ [x]) dates1"
  have step: "group_dates dates (x # fs) = group_dates dates2 fs"
    by (simp add: Let_def key_def dates1_def dates2_def)
  have one: "map_of dates1 k = Some g"
    using Cons.prems(1) by (auto simp: dates1_def map_add_def)
  have "\<exists>g2. map_of dates2 k = Some g2 \<and> f \<in> set g2"
    using one Cons.prems(2) by (auto simp: dates2_def map_of_map_entry)
  then obtain g2 where "map_of dates2 k = Some g2" "f \<in> set g2"
    by blast
  then show ?case
    unfolding step by (rule Cons.IH)
qed

lemma group_dates_files:
  "f \<in> set fs \<Longrightarrow>
   \<exists>g. map_of (group_dates dates fs)
          (dict_get_default f ''event_date_formatted'' (PStr unknown_date)) = Some g \<and> f \<in> set g"
proof (induction fs arbitrary: dates)
  case Nil
  then show ?case by simp
next
  case (Cons x fs)
  define key where "key = dict_get_default x ''event_date_formatted'' (PStr unknown_date)"
  define dates1 where "dates1 = (if map_of dates key = None then dates @ [(key, [])] else dates)"
  define dates2 where "dates2 = AList.map_entry key (\<lambda>g. g @ [x]) dates1"
  have step: "group_dates dates (x # fs) = group_dates dates2 fs"
    by (simp add: Let_def key_def dates1_def dates2_def)
  show ?case
  proof (cases "f = x")
    case True
    have "\<exists>g1. map_of dates1 key = Some g1"
      by (auto simp: dates1_def map_add_def)
    then have "\<exists>g2. map_of dates2 key = Some g2 \<and> x \<in> set g2"
      by (auto simp: dates2_def map_of_map_entry)
    then obtain g2 where "map_of dates2 key = Some g2" "x \<in> set g2"
      by blast
    then have "\<exists>g'. map_of (group_dates dates2 fs) key = Some g' \<and> x \<in> set g'"
      by (rule group_dates_keeps)
    then show ?thesis
      unfolding step using True by (simp add: key_def)
  next
    case False
    then have "f \<in> set fs"
      using Cons.prems by simp
    then show ?thesis
      unfolding step by (rule Cons.IH)
  qed
qed

section \<open>Lemmas: the two groupings\<close>


lemma by_date_Some:
  "get_fixtures_by_date w rt ids (Some fs) = py_sorted fst (group_dates [] fs)"
  by (simp add: get_fixtures_by_date_def fixtures_or_default_def)


lemma by_date_returns:
  assumes "list_all (text_or_missing ''event_date_formatted'') fs"
  shows "\<exists>m. get_fixtures_by_date w rt ids (Some fs) = Inr m"
proof -
  have "list_all is_text (map fst (group_dates [] fs))"
    by (rule group_dates_text) (simp_all add: assms)
  then have "list_all (\<lambda>x. is_text (fst x)) (group_dates [] fs)"
    by (simp add: list_all_iff)
  then show ?thesis
    unfolding by_date_Some by (rule py_sorted_text)
qed



lemma by_date_files:
  assumes "get_fixtures_by_date w rt ids (Some fs) = Inr m" and "f \<in> set fs"
  shows "\<exists>g. (dict_get_default f ''event_date_formatted'' (PStr unknown_date), g) \<in> set m \<and> f \<in> set g"
proof -
  have perm: "mset m = mset (group_dates [] fs)"
    using assms(1) unfolding by_date_Some by (rule py_sorted_mset)
  obtain g where g: "map_of (group_dates [] fs)
      (dict_get_default f ''event_date_formatted'' (PStr unknown_date)) = Some g" "f \<in> set g"
    using group_dates_files [OF assms(2)] by blast
  have "(dict_get_default f ''event_date_formatted'' (PStr unknown_date), g) \<in> set (group_dates [] fs)"
    using g(1) by (rule map_of_SomeD)
  then have "(dict_get_default f ''event_date_formatted'' (PStr unknown_date), g) \<in> set m"
    using mset_eq_setD [OF perm] by simp
  then show ?thesis
    using g(2) by blast
qed

section \<open>Lemmas: the sample fixtures\<close>

lemma map_of_resolved_league:
  "map_of (resolve_names f) ''league_name_tc'' =
     (if \<not> truthy (dict_get f ''league_name_tc'')
      then Some (dict_get_default f ''league_name_en'' (PStr unknown_league))
      else map_of f ''league_name_tc'')"
  by (simp add: resolve_names_def map_of_fill_name)

lemma map_of_normalize_row_date:
  "map_of (normalize_row rt row) ''event_date_formatted'' =
     (if truthy (dict_get row ''event_date'') then
        Some (case try_format rt (dict_get row ''event_date'') of
                Some (d, t, l) \<Rightarrow> PStr d
              | None \<Rightarrow> dict_get row ''event_date'')
      else map_of row ''event_date_formatted'')"
  by (simp add: normalize_row_def format_event_date_def Let_def map_of_set_derived
        dict_get_resolve_names_other map_of_resolve_names_other split: option.splits prod.splits)

lemma map_of_sample_row:
  "map_of sample_row ''league_api_id'' = Some (PInt 39)"
  "map_of sample_row ''league_name_tc'' = Some PNone"
  "map_of sample_row ''league_name_en'' = Some (PStr ''Premier League'')"
  "map_of sample_row ''league_country'' = Some (PStr ''England'')"
  "map_of sample_row ''event_date'' = Some (PStr ''2024-03-01T15:00:00Z'')"
  "map_of sample_row ''event_date_formatted'' = None"
  "map_of sample_row ''event_time_formatted'' = None"
  "map_of sample_row ''event_datetime_local'' = None"
  by (simp_all add: sample_row_def)

lemmas sample_lookup =
  dict_get_def dict_get_default_def map_of_dict_set map_of_sample_row map_of_normalize_row_other
  map_of_resolve_names_other map_of_resolved_league map_of_normalize_row_date derived_keys_def

lemma try_format_not_a_date: "try_format (cpython z) (PStr ''not-a-date'') = None"
  by (simp add: try_format_def cpython_def replace_Z_def parse_not_a_date)

lemma fixture_a_lookup:
  "dict_get fixture_a ''league_api_id'' = PInt 39"
  "dict_get_default fixture_a ''league_name_tc'' (PStr unknown_league) = PStr ''Premier League''"
  "dict_get_default fixture_a ''league_country'' (PStr []) = PStr ''England''"
  "dict_get_default fixture_a ''event_date_formatted'' (PStr unknown_date) = PStr ''2024-03-01''"
  by (simp_all add: fixture_a_def sample_lookup try_format_sample_utc)

lemma fixture_b_lookup:
  "dict_get fixture_b ''league_api_id'' = PInt 140"
  "dict_get_default fixture_b ''league_name_tc'' (PStr unknown_league) = PStr ''La Liga''"
  "dict_get_default fixture_b ''league_country'' (PStr []) = PStr ''England''"
  "dict_get_default fixture_b ''event_date_formatted'' (PStr unknown_date) = PStr unknown_date"
  by (simp_all add: fixture_b_def row_liga_undated_def sample_lookup)

lemma fixture_c_lookup:
  "dict_get fixture_c ''league_api_id'' = PInt 39"
  "dict_get_default fixture_c ''league_name_tc'' (PStr unknown_league) = PStr ''Premier League''"
  "dict_get_default fixture_c ''league_country'' (PStr []) = PStr ''England''"
  "dict_get_default fixture_c ''event_date_formatted'' (PStr unknown_date) = PStr ''not-a-date''"
  by (simp_all add: fixture_c_def sample_lookup try_format_not_a_date)

lemma sample_fixtures_text:
  "list_all (text_or_missing ''league_name_tc'') [fixture_a, fixture_b, fixture_c]"
  "list_all (text_or_missing ''event_date_formatted'') [fixture_a, fixture_b, fixture_c]"
  by (simp_all add: text_or_missing_def fixture_a_def fixture_b_def fixture_c_def
        row_liga_undated_def sample_lookup try_format_sample_utc try_format_not_a_date)


lemma unknown_date_differs:
  "unknown_date \<noteq> ''2024-03-01''" "''2024-03-01'' \<noteq> unknown_date"
  "unknown_date \<noteq> ''not-a-date''" "''not-a-date'' \<noteq> unknown_date"
  by (simp_all add: unknown_date_def)

lemma sample_group_dates:
  "group_dates [] [fixture_a, fixture_b, fixture_c] =
     [(PStr ''2024-03-01'', [fixture_a]), (PStr unknown_date, [fixture_b]),
      (PStr ''not-a-date'', [fixture_c])]"
  by (simp add: Let_def fixture_a_lookup fixture_b_lookup fixture_c_lookup unknown_date_differs)

lemma sample_text_order:
  "''La Liga'' \<le> ''Premier League''" "\<not> ''Premier League'' \<le> ''La Liga''"
  "''2024-03-01'' \<le> ''not-a-date''" "''not-a-date'' \<le> unknown_date"
  "''2024-03-01'' \<le> unknown_date" "\<not> unknown_date \<le> ''not-a-date''"
  "\<not> unknown_date \<le> ''2024-03-01''" "\<not> ''not-a-date'' \<le> ''2024-03-01''"
  by code_simp+


lemma sample_by_date:
  "get_fixtures_by_date w rt ids (Some [fixture_a, fixture_b, fixture_c]) =
     Inr [(PStr ''2024-03-01'', [fixture_a]), (PStr ''not-a-date'', [fixture_c]),
          (PStr unknown_date, [fixture_b])]"
  unfolding by_date_Some sample_group_dates
  by (simp add: py_sorted_def sample_text_order)

section \<open>Lemmas: two runtimes\<close>

lemma date_time_normalize_row:
  assumes "fromisoformat rt1 = fromisoformat rt2" and "strftime rt1 = strftime rt2"
    and "same_failures rt1 rt2 [row]"
  shows "dict_get (normalize_row rt1 row) ''event_date_formatted''
           = dict_get (normalize_row rt2 row) ''event_date_formatted''"
    and "dict_get (normalize_row rt1 row) ''event_time_formatted''
           = dict_get (normalize_row rt2 row) ''event_time_formatted''"
  using assms
  by (auto simp: derived_fst derived_snd derived_normalize_row try_format_def same_failures_def
        split: pyval.splits option.splits)

lemma same_failures_row: "same_failures rt1 rt2 rows \<Longrightarrow> row \<in> set rows \<Longrightarrow> same_failures rt1 rt2 [row]"
  by (simp add: same_failures_def list_all_iff)

lemma date_time_columns:
  assumes "int_text rt1 = int_text rt2" and "fromisoformat rt1 = fromisoformat rt2"
    and "strftime rt1 = strftime rt2" and "same_failures rt1 rt2 rows"
  shows "column ''event_date_formatted'' (normalize rt1 ids rows)
           = column ''event_date_formatted'' (normalize rt2 ids rows)"
    and "column ''event_time_formatted'' (normalize rt1 ids rows)
           = column ''event_time_formatted'' (normalize rt2 ids rows)"
  unfolding column_normalize
  using rejected_int_text [OF assms(1)] selected_int_text [OF assms(1)]
    date_time_normalize_row [OF assms(2,3) same_failures_row [OF assms(4)]]
  by simp_all

section \<open>Claims\<close>

text \<open>
  C1, as the spec states it, fails twice. A row whose competition identifier is a text
  that is not a number is not dropped: \<^verbatim>\<open>int\<close> raises \<^verbatim>\<open>ValueError\<close> on it and
  \<^verbatim>\<open>get_fixtures\<close> returns nothing, the rows before it included. And a row whose
  identifier is 0 is dropped by the test \<^verbatim>\<open>league_api_id and ...\<close> even when 0 is a
  member of the allow-list.
\<close>

theorem C1_text_or_zero_identifier:
  "get_fixtures (world_of [sample_row, dict_set sample_row ''league_api_id'' (PStr ''abc'')])
     (cpython 0) DEFAULT_LEAGUE_IDS 7 = Inl ValueError
   \<and> get_fixtures (world_of [dict_set sample_row ''league_api_id'' (PInt 0)])
     (cpython 0) (insert (PInt 0) DEFAULT_LEAGUE_IDS) 7 = Inr []"
  by (simp add: get_fixtures_world_of normalize_eq dict_get_dict_set rejected_abc rejected_PInt
        selected_PInt)

text \<open>
  C1, amended. When the database file is found and the query answers with \<open>rows\<close>:
  if some row has an identifier that is true as a condition and on which \<^verbatim>\<open>int\<close>
  raises, \<^verbatim>\<open>get_fixtures\<close> raises \<^verbatim>\<open>ValueError\<close>; otherwise it returns, in the order of
  the query, the normalized form of exactly the rows whose identifier is true as a
  condition (not null, not 0, not the empty text) and, as \<^verbatim>\<open>int\<close> reads it, is a member
  of the allow-list. A null identifier is neither rejected nor selected: its row is
  dropped and nothing is raised on it. This holds for the \<^verbatim>\<open>int\<close> of any runtime.
\<close>

theorem C1_selection:
  assumes "get_db_path w = Inr p" and "query_rows w p n = Inr rows"
  shows "get_fixtures w rt ids n =
           (if list_ex (\<lambda>row. rejected rt (dict_get row ''league_api_id'')) rows then Inl ValueError
            else Inr (map (normalize_row rt)
                   (filter (\<lambda>row. selected rt ids (dict_get row ''league_api_id'')) rows)))
         \<and> \<not> rejected rt PNone \<and> \<not> selected rt ids PNone"
  using assms by (simp add: get_fixtures_def normalize_eq rejected_def selected_def)

theorem C1_selection_witness:
  "column ''league_api_id''
     (get_fixtures
        (world_of [sample_row, dict_set sample_row ''league_api_id'' (PInt 99999),
                   dict_set sample_row ''league_api_id'' PNone,
                   dict_set sample_row ''league_api_id'' (PStr '' 61 '')])
        (cpython 0) DEFAULT_LEAGUE_IDS 7)
   = Inr [PInt 39, PStr '' 61 '']"
  using C1_selection [of "world_of [sample_row, dict_set sample_row ''league_api_id'' (PInt 99999),
           dict_set sample_row ''league_api_id'' PNone,
           dict_set sample_row ''league_api_id'' (PStr '' 61 '')]" db_file 7
         "[sample_row, dict_set sample_row ''league_api_id'' (PInt 99999),
           dict_set sample_row ''league_api_id'' PNone,
           dict_set sample_row ''league_api_id'' (PStr '' 61 '')]" "cpython 0" DEFAULT_LEAGUE_IDS]
  by (simp add: get_db_path_world_of query_rows_world_of column_def dict_get_dict_set
        sample_league_api_id rejected_PInt rejected_PNone selected_PNone selected_PInt
        default_ids_iff selected_61 rejected_61 dict_get_normalize_row_other
        dict_get_resolve_names_other derived_keys_def)

text \<open>
  C5. When none of the possible paths of the database file exists, \<^verbatim>\<open>get_fixtures\<close>
  raises \<^verbatim>\<open>FileNotFoundError\<close> (the DataSourceUnavailable of the spec) and returns no
  list of fixtures, whatever the world holds otherwise.
\<close>

theorem C5_no_database_file:
  "list_all (\<lambda>p. \<not> path_exists w p) (possible_paths w) \<Longrightarrow>
   get_fixtures w rt ids n = Inl FileNotFoundError"
  by (simp add: get_fixtures_def get_db_path_def filter_empty_conv list_all_iff)

theorem C5_no_database_file_witness:
  "get_fixtures empty_world (cpython 0) DEFAULT_LEAGUE_IDS 7 = Inl FileNotFoundError"
  using C5_no_database_file [of empty_world "cpython 0" DEFAULT_LEAGUE_IDS 7]
  by (simp add: empty_world_def possible_paths_def)

text \<open>
  C4, as the spec states it, fails: the handler is for \<^verbatim>\<open>ImportError\<close> only. A module
  that raises another exception while it is imported (a syntax error in it), or a
  name bound to a value that has no \<^verbatim>\<open>keys\<close>, makes the load raise.
\<close>

theorem C4_other_failures_propagate:
  "load_TARGET_LEAGUE_IDS (Inl SyntaxError) = Inl SyntaxError
   \<and> load_TARGET_LEAGUE_IDS (Inr (Plain PNone)) = Inl AttributeError"
  by (simp add: load_TARGET_LEAGUE_IDS_def keys_set_def is_ImportError_def)

text \<open>
  C4, amended. The load does not raise when the import raises \<^verbatim>\<open>ImportError\<close> (the
  module or the name is missing): it then yields the built-in identifiers 39 to 500,
  with no names. Any other exception of the import is raised again; a mapping that
  was imported yields its keys, and an imported value that is no mapping raises
  \<^verbatim>\<open>AttributeError\<close>.
\<close>

theorem C4_import_error_fallback:
  "(is_ImportError e \<longrightarrow> load_TARGET_LEAGUE_IDS (Inl e) = Inr DEFAULT_LEAGUE_IDS)
   \<and> (\<not> is_ImportError e \<longrightarrow> load_TARGET_LEAGUE_IDS (Inl e) = Inl e)
   \<and> load_TARGET_LEAGUE_IDS (Inr (Dict kvs)) = Inr (set (map fst kvs))
   \<and> load_TARGET_LEAGUE_IDS (Inr (Plain v)) = Inl AttributeError"
  by (simp add: load_TARGET_LEAGUE_IDS_def keys_set_def is_ImportError_def)

theorem C4_import_error_fallback_witness:
  "load_TARGET_LEAGUE_IDS (Inl ModuleNotFoundError) = Inr DEFAULT_LEAGUE_IDS
   \<and> load_TARGET_LEAGUE_IDS (Inl FileNotFoundError) = Inl FileNotFoundError
   \<and> load_TARGET_LEAGUE_IDS (Inr (Dict [(PInt 39, PStr ''Premier League''), (PInt 140, PStr ''La Liga'')]))
       = Inr {PInt 39, PInt 140}"
  using C4_import_error_fallback [of ModuleNotFoundError "[(PInt 39, PStr ''Premier League''), (PInt 140, PStr ''La Liga'')]" PNone]
        C4_import_error_fallback [of FileNotFoundError "[]" PNone]
  by (simp add: is_ImportError_def)


lemma sample_home: "dict_get sample_row ''home_team_name_tc'' = PNone"
  "dict_get sample_row ''home_team_name_en'' = PStr ''Liverpool''"
  by (simp_all add: sample_row_def dict_get_def)

lemma sample_without_home_en:
  "dict_get (AList.delete ''home_team_name_en'' sample_row) ''league_api_id'' = PInt 39"
  "dict_get (AList.delete ''home_team_name_en'' sample_row) ''home_team_name_tc'' = PNone"
  "dict_get_default (AList.delete ''home_team_name_en'' sample_row) ''home_team_name_en''
     (PStr unknown_home) = PStr unknown_home"
  by code_simp+

text \<open>
  C2 does not hold of the code. The placeholder is the default of
  \<^verbatim>\<open>fixture.get(en, placeholder)\<close>, which is used only when the row has no such key;
  a row of the query always has the key, with the value \<^verbatim>\<open>None\<close> when the column is
  NULL. For a home team with neither name the resolved name is \<^verbatim>\<open>None\<close>, not the
  placeholder; the placeholder appears only for a \<^verbatim>\<open>dict\<close> without the key.
\<close>

theorem C2_null_english_name:
  "column ''home_team_name_tc''
     (get_fixtures (world_of [dict_set sample_row ''home_team_name_en'' PNone])
        (cpython 0) DEFAULT_LEAGUE_IDS 7) = Inr [PNone]
   \<and> column ''home_team_name_tc''
     (get_fixtures (world_of [AList.delete ''home_team_name_en'' sample_row])
        (cpython 0) DEFAULT_LEAGUE_IDS 7) = Inr [PStr unknown_home]"
proof -
  have a: "dict_get (dict_set sample_row ''home_team_name_en'' PNone) ''league_api_id'' = PInt 39"
    by (simp add: dict_get_dict_set sample_league_api_id)
  have c: "dict_get (normalize_row (cpython 0) (dict_set sample_row ''home_team_name_en'' PNone))
             ''home_team_name_tc'' = PNone"
    by (simp add: dict_get_normalize_row_other derived_keys_def resolved_home dict_get_dict_set
          dict_get_default_dict_set sample_home)
  have d: "dict_get (normalize_row (cpython 0) (AList.delete ''home_team_name_en'' sample_row))
             ''home_team_name_tc'' = PStr unknown_home"
    by (simp add: dict_get_normalize_row_other derived_keys_def resolved_home
          sample_without_home_en)
  show ?thesis
    by (simp add: get_fixtures_world_of column_normalize a c d sample_without_home_en
          rejected_PInt selected_PInt default_ids_iff)
qed





text \<open>
  C9, as the spec states it, fails: the local time zone of the process is an input of
  the normalization besides the rows and the allow-list. The same row, with the same
  allow-list, gets the field \<^verbatim>\<open>event_datetime_local\<close> \<^verbatim>\<open>2024-03-01 15:00\<close> in a process
  whose zone is UTC and \<^verbatim>\<open>2024-03-01 23:00\<close> in one whose zone is eight hours east.
\<close>

theorem C9_local_zone_is_an_input:
  "column ''event_datetime_local'' (normalize (cpython 0) DEFAULT_LEAGUE_IDS [sample_row])
     = Inr [PStr ''2024-03-01 15:00'']
   \<and> column ''event_datetime_local'' (normalize (cpython 28800) DEFAULT_LEAGUE_IDS [sample_row])
     = Inr [PStr ''2024-03-01 23:00'']"
  by (simp add: column_normalize sample_league_api_id rejected_PInt selected_PInt default_ids_iff
        derived_trd derived_normalize_row sample_event_date try_format_sample_utc
        try_format_sample_taipei)

text \<open>
  C9, amended. The normalization is a function of the rows, the allow-list and the
  runtime of the process, of which the local time zone is a part. Two runs whose
  \<^verbatim>\<open>int\<close> reads texts alike give the same result apart from the three derived fields:
  both raise, or both return the same fixtures in the same order, equal in every other
  field. When moreover the parser and the formatter are the same and the conversion to
  the local zone raises in both runs or in neither, for every timestamp of the rows,
  the fields \<^verbatim>\<open>event_date_formatted\<close> and \<^verbatim>\<open>event_time_formatted\<close> are equal too. Only
  \<^verbatim>\<open>event_datetime_local\<close> is left to the zone.
\<close>

theorem C9_all_but_derived_fields:
  assumes "int_text rt1 = int_text rt2"
  shows "apart_from_derived (normalize rt1 ids rows) = apart_from_derived (normalize rt2 ids rows)
       \<and> (fromisoformat rt1 = fromisoformat rt2 \<and> strftime rt1 = strftime rt2
            \<and> same_failures rt1 rt2 rows \<longrightarrow>
          column ''event_date_formatted'' (normalize rt1 ids rows)
            = column ''event_date_formatted'' (normalize rt2 ids rows)
          \<and> column ''event_time_formatted'' (normalize rt1 ids rows)
            = column ''event_time_formatted'' (normalize rt2 ids rows))"
  using all_but_derived [OF assms] date_time_columns [OF assms] by blast

theorem C9_all_but_derived_fields_witness:
  "apart_from_derived (normalize (cpython 0) DEFAULT_LEAGUE_IDS [sample_row])
     = apart_from_derived (normalize (cpython 28800) DEFAULT_LEAGUE_IDS [sample_row])
   \<and> column ''event_date_formatted'' (normalize (cpython 0) DEFAULT_LEAGUE_IDS [sample_row])
     = column ''event_date_formatted'' (normalize (cpython 28800) DEFAULT_LEAGUE_IDS [sample_row])
   \<and> column ''event_time_formatted'' (normalize (cpython 0) DEFAULT_LEAGUE_IDS [sample_row])
     = column ''event_time_formatted'' (normalize (cpython 28800) DEFAULT_LEAGUE_IDS [sample_row])"
proof -
  have same: "same_failures (cpython 0) (cpython 28800) [sample_row]"
    by (simp add: same_failures_def sample_event_date cpython_def replace_Z_sample parse_sample
          local_sample_utc local_sample_taipei)
  show ?thesis
    using C9_all_but_derived_fields [of "cpython 0" "cpython 28800" DEFAULT_LEAGUE_IDS "[sample_row]"]
      same
    by (simp add: cpython_def)
qed

text \<open>
  C10. A retained row whose \<^verbatim>\<open>event_date\<close> is null or the empty text, and which has
  none of the three derived keys (no row of the query has one), is in the output, and
  its fixture has none of the three derived keys either. Whenever
  \<^verbatim>\<open>get_fixtures_by_date\<close> returns on that output, the fixture is in the group of the
  placeholder date; and it returns when every date key of the output is a text or is
  missing.
\<close>

theorem C10_no_timestamp:
  assumes "row \<in> set rows" and "selected rt ids (dict_get row ''league_api_id'')"
    and "normalize rt ids rows = Inr out"
    and "dict_get row ''event_date'' = PNone \<or> dict_get row ''event_date'' = PStr []"
    and "list_all (\<lambda>k. map_of row k = None) derived_keys"
  shows "normalize_row rt row \<in> set out
       \<and> list_all (\<lambda>k. map_of (normalize_row rt row) k = None) derived_keys
       \<and> (\<forall>m. get_fixtures_by_date w rt ids (Some out) = Inr m \<longrightarrow>
            (\<exists>g. (PStr unknown_date, g) \<in> set m \<and> normalize_row rt row \<in> set g))
       \<and> (list_all (text_or_missing ''event_date_formatted'') out \<longrightarrow>
            (\<exists>m. get_fixtures_by_date w rt ids (Some out) = Inr m))"
proof -
  from assms(3) have out: "out = map (normalize_row rt)
      (filter (\<lambda>row. selected rt ids (dict_get row ''league_api_id'')) rows)"
    by (simp add: normalize_eq split: if_splits)
  have mem: "normalize_row rt row \<in> set out"
    unfolding out using assms(1,2) by simp
  have falsy: "\<not> truthy (dict_get row ''event_date'')"
    using assms(4) by auto
  have absent: "list_all (\<lambda>k. map_of (normalize_row rt row) k = None) derived_keys"
    using assms(5) by (simp add: list_all_iff map_of_normalize_row_derived_absent [OF falsy])
  have "map_of (normalize_row rt row) ''event_date_formatted'' = None"
    using absent by (simp add: derived_keys_def)
  then have key: "dict_get_default (normalize_row rt row) ''event_date_formatted'' (PStr unknown_date)
      = PStr unknown_date"
    by (simp add: dict_get_default_def)
  have files: "\<exists>g. (PStr unknown_date, g) \<in> set m \<and> normalize_row rt row \<in> set g"
    if "get_fixtures_by_date w rt ids (Some out) = Inr m" for m
    using by_date_files [OF that mem] by (simp add: key)
  show ?thesis
    using mem absent files by_date_returns [of out w rt ids] by blast
qed

theorem C10_no_timestamp_witness:
  "fixture_b \<in> set [fixture_a, fixture_b, fixture_c]
   \<and> map_of fixture_b ''event_date_formatted'' = None
   \<and> map_of fixture_b ''event_time_formatted'' = None
   \<and> map_of fixture_b ''event_datetime_local'' = None
   \<and> (\<exists>g. (PStr unknown_date, g)
            \<in> set [(PStr ''2024-03-01'', [fixture_a]), (PStr ''not-a-date'', [fixture_c]),
                    (PStr unknown_date, [fixture_b])]
          \<and> fixture_b \<in> set g)"
proof -
  let ?rt = "cpython 0"
  let ?bad = "dict_set sample_row ''event_date'' (PStr ''not-a-date'')"
  let ?rows = "[sample_row, row_liga_undated, ?bad]"
  let ?out = "[fixture_a, fixture_b, fixture_c]"
  have mem: "row_liga_undated \<in> set ?rows"
    by simp
  have sel: "selected ?rt DEFAULT_LEAGUE_IDS (dict_get row_liga_undated ''league_api_id'')"
    by (simp add: row_liga_undated_def dict_get_dict_set selected_PInt default_ids_iff)
  have norm: "normalize ?rt DEFAULT_LEAGUE_IDS ?rows = Inr ?out"
    by (simp add: normalize_eq row_liga_undated_def dict_get_dict_set sample_league_api_id
          rejected_PInt selected_PInt default_ids_iff fixture_a_def fixture_b_def fixture_c_def)
  have ev: "dict_get row_liga_undated ''event_date'' = PNone
            \<or> dict_get row_liga_undated ''event_date'' = PStr []"
    by (simp add: row_liga_undated_def dict_get_dict_set)
  have none: "list_all (\<lambda>k. map_of row_liga_undated k = None) derived_keys"
    by (simp add: derived_keys_def row_liga_undated_def map_of_dict_set map_of_sample_row)
  note w = C10_no_timestamp [OF mem sel norm ev none, of "world_of []"]
  have a: "normalize_row ?rt row_liga_undated \<in> set ?out"
    using w by blast
  have b: "list_all (\<lambda>k. map_of (normalize_row ?rt row_liga_undated) k = None) derived_keys"
    using w by blast
  have c: "\<exists>g. (PStr unknown_date, g)
            \<in> set [(PStr ''2024-03-01'', [fixture_a]), (PStr ''not-a-date'', [fixture_c]),
                    (PStr unknown_date, [fixture_b])]
          \<and> normalize_row ?rt row_liga_undated \<in> set g"
    using w sample_by_date [of "world_of []" ?rt DEFAULT_LEAGUE_IDS] by blast
  show ?thesis
    using a b c unfolding fixture_b_def [symmetric] by (simp add: derived_keys_def)
qed





end
